theory Spec2Isabelle
  imports Complex_Main "HOL-Library.Word"
begin

unbundle bit_operations_syntax

section \<open>Conventions\<close>

text \<open>
  Two scripts are embedded: \<^verbatim>\<open>read_and_store_temp.py\<close> (the temperature probe, binary
  frames) and \<^verbatim>\<open>read_and_store.py\<close> (the flowmeter, text lines).

  \<^item> An element of a Python \<^verbatim>\<open>bytes\<close>/\<^verbatim>\<open>bytearray\<close> is an \<open>8 word\<close>; arithmetic on it is
    done on Python's unbounded integers, so it is read with \<open>uint\<close> first.
  \<^item> A Python \<^verbatim>\<open>float\<close> is represented by the exact real number of the expression that
    produced it. The scripts only compare floats with the integers 10 and 100, test them
    for being zero, and pass them on; each of these is written out where it happens.
  \<^item> What the environment supplies (bytes read from the serial port, the wall clock,
    the answer of the remote table) is an explicit argument.
  \<^item> Mutation is state passing; an exception is a value of \<open>py_error\<close>.
\<close>

datatype py_error = ValueError

text \<open>What \<^verbatim>\<open>supabase.table(...).insert(...).execute()\<close> does: it returns a response whose
  \<^verbatim>\<open>data\<close> is non-empty, a response whose \<^verbatim>\<open>data\<close> is empty, or it raises.\<close>

datatype sink_response = ResponseData | ResponseEmpty | SinkRaises


section \<open>Temperature probe\<close>

type_synonym byte = "8 word"

text \<open>\<^verbatim>\<open>(hi << 8 | lo) / 10.0\<close>\<close>

definition shift_or :: "byte \<Rightarrow> byte \<Rightarrow> int" where
  "shift_or hi lo = push_bit 8 (uint hi) OR uint lo"

definition tenths :: "byte \<Rightarrow> byte \<Rightarrow> real" where
  "tenths hi lo = real_of_int (shift_or hi lo) / 10"

text \<open>\<^verbatim>\<open>parse_frame\<close> only prints; the model returns what it prints.\<close>

datatype frame_report =
    FrameLengthNot8 nat
  | InvalidFrameStart byte
  | FrameValues real real

definition parse_frame :: "byte list \<Rightarrow> frame_report" where
  "parse_frame frame =
     (if length frame \<noteq> 8 then FrameLengthNot8 (length frame)
      else if frame ! 0 \<noteq> 0x02 then InvalidFrameStart (frame ! 0)
      else FrameValues (tenths (frame ! 2) (frame ! 3)) (tenths (frame ! 4) (frame ! 5)))"

text \<open>\<^verbatim>\<open>find_frame\<close>: the loop over \<^verbatim>\<open>range(len(buffer) - 7)\<close>; a negative bound gives the
  empty range, as truncating subtraction on \<open>nat\<close> does. Every index of the range has
  eight bytes after it, so \<^verbatim>\<open>candidate[7]\<close> is in range.\<close>

fun find_frame_loop :: "byte list \<Rightarrow> nat list \<Rightarrow> (byte list \<times> nat) option" where
  "find_frame_loop buffer [] = None"
| "find_frame_loop buffer (i # rest) =
     (if buffer ! i = 0x02 then
        (let candidate = take 8 (drop i buffer) in
         if candidate ! 7 = 0x03 then Some (candidate, i + 8)
         else find_frame_loop buffer rest)
      else find_frame_loop buffer rest)"

definition find_frame :: "byte list \<Rightarrow> byte list option \<times> nat" where
  "find_frame buffer =
     (case find_frame_loop buffer [0..<length buffer - 7] of
        Some (candidate, n) \<Rightarrow> (Some candidate, n)
      | None \<Rightarrow> (None, 0))"

text \<open>The selection loop of \<^verbatim>\<open>main\<close> (lines 113 to 125): \<^verbatim>\<open>found\<close> counts the windows
  whose first byte is \<open>0x02\<close>; the loop breaks at the second.\<close>

fun upload_scan :: "byte list \<Rightarrow> nat list \<Rightarrow> nat \<Rightarrow> (real \<times> real) option" where
  "upload_scan buffer [] found = None"
| "upload_scan buffer (i # rest) found =
     (let candidate = take 8 (drop i buffer) in
      if candidate ! 0 = 0x02 then
        (let t1 = tenths (candidate ! 2) (candidate ! 3);
             t2 = tenths (candidate ! 4) (candidate ! 5);
             found' = found + 1
         in if found' = 2 then Some (t1, t2) else upload_scan buffer rest found')
      else upload_scan buffer rest found)"

definition select_upload :: "byte list \<Rightarrow> (real \<times> real) option" where
  "select_upload buffer = upload_scan buffer [0..<length buffer - 7] 0"

text \<open>The first loop of \<^verbatim>\<open>main\<close> (lines 108 to 111) prints every window that starts
  with \<open>0x02\<close> through \<^verbatim>\<open>parse_frame\<close>.\<close>

definition debug_scan :: "byte list \<Rightarrow> frame_report list" where
  "debug_scan buffer =
     map parse_frame
       (filter (\<lambda>candidate. candidate ! 0 = 0x02)
          (map (\<lambda>i. take 8 (drop i buffer)) [0..<length buffer - 7]))"

record temperature_row =
  row_timestamp :: string
  row_t1 :: real
  row_t2 :: real

datatype temp_event =
    Insert temperature_row
  | Uploaded real real string
  | UploadFailed
  | SupabaseError
  | SkippedUpload real real

text \<open>Lines 126 to 145: the range check and the upload. \<open>now\<close> is the wall clock read
  at line 128, \<open>resp\<close> is what the insert does. The chained comparison is on floats
  \<open>raw / 10.0\<close>; division by ten is monotone and 10 and 100 are floats, so comparing
  the exact quotients gives the same answer.\<close>

definition upload_selected ::
    "string \<Rightarrow> sink_response \<Rightarrow> (real \<times> real) option \<Rightarrow> temp_event list" where
  "upload_selected now resp sel =
     (case sel of
        None \<Rightarrow> []
      | Some (t1_to_upload, t2_to_upload) \<Rightarrow>
          if 10 \<le> t1_to_upload \<and> t1_to_upload \<le> 100
             \<and> 10 \<le> t2_to_upload \<and> t2_to_upload \<le> 100
          then
            (let data_to_upload =
                   \<lparr>row_timestamp = now, row_t1 = t1_to_upload, row_t2 = t2_to_upload\<rparr>
             in Insert data_to_upload #
                (case resp of
                   ResponseData \<Rightarrow> [Uploaded t1_to_upload t2_to_upload now]
                 | ResponseEmpty \<Rightarrow> [UploadFailed]
                 | SinkRaises \<Rightarrow> [SupabaseError]))
          else [SkippedUpload t1_to_upload t2_to_upload])"

text \<open>\<^verbatim>\<open>buffer[-32:]\<close>, taken only when the buffer is longer than 32.\<close>

definition trim :: "byte list \<Rightarrow> byte list" where
  "trim buffer = (if length buffer > 32 then drop (length buffer - 32) buffer else buffer)"

record temp_state =
  buffer :: "byte list"
  consecutive_errors :: nat
  events :: "temp_event list"

record poll =
  chunk :: "byte list"
  now :: string
  response :: sink_response

definition temp_init :: temp_state where
  "temp_init = \<lparr>buffer = [], consecutive_errors = 0, events = []\<rparr>"

text \<open>One pass through the body of \<^verbatim>\<open>while True\<close> up to the test of
  \<^verbatim>\<open>consecutive_errors\<close>: \<open>p\<close> holds what \<^verbatim>\<open>ser.read(32)\<close> returned.\<close>

definition cycle :: "temp_state \<Rightarrow> poll \<Rightarrow> temp_state" where
  "cycle st p =
     (if chunk p \<noteq> [] then
        (let buf = buffer st @ chunk p in
         st\<lparr>buffer := trim buf,
            events := events st @ upload_selected (now p) (response p) (select_upload buf)\<rparr>)
      else st\<lparr>consecutive_errors := consecutive_errors st + 1\<rparr>)"

text \<open>The polling loop over the reads the port delivers; it leaves at the
  \<^verbatim>\<open>break\<close> once five empty reads have been counted.\<close>

fun main_loop :: "temp_state \<Rightarrow> poll list \<Rightarrow> temp_state" where
  "main_loop st [] = st"
| "main_loop st (p # ps) =
     (let st' = cycle st p in
      if consecutive_errors st' \<ge> 5 then st' else main_loop st' ps)"

section \<open>Flowmeter\<close>

subsection \<open>Text\<close>

text \<open>The serial line is decoded with \<^verbatim>\<open>decode('ascii', errors='ignore')\<close>, so a line is a
  string of code points below 128; a \<open>char\<close> holds it. \<open>is_space\<close> is Python's
  notion of white space for \<^verbatim>\<open>str.strip()\<close> and for \<^verbatim>\<open>\s\<close> in a \<^verbatim>\<open>str\<close> pattern, on code points
  below 256; \<open>is_digit\<close> is \<^verbatim>\<open>\d\<close> there.\<close>

definition is_space :: "char \<Rightarrow> bool" where
  "is_space c =
     (let n = (of_char c :: nat)
      in (9 \<le> n \<and> n \<le> 13) \<or> (28 \<le> n \<and> n \<le> 32) \<or> n = 133 \<or> n = 160)"

definition is_digit :: "char \<Rightarrow> bool" where
  "is_digit c = (let n = (of_char c :: nat) in 48 \<le> n \<and> n \<le> 57)"

definition strip :: "string \<Rightarrow> string" where
  "strip s = rev (dropWhile is_space (rev (dropWhile is_space s)))"

text \<open>\<^verbatim>\<open>re.match(r'(\d{2}-\d{2}-\d{2} \d{2}:\d{2}:\d{2})', line)\<close>: the pattern is a fixed
  sequence of digit positions and literal characters, matched at the start of the line;
  the result is the text of group 1.\<close>

datatype pat = Digit | Lit char

fun match_pat :: "pat list \<Rightarrow> string \<Rightarrow> string option" where
  "match_pat [] s = Some []"
| "match_pat (p # ps) [] = None"
| "match_pat (p # ps) (c # cs) =
     (if (case p of Digit \<Rightarrow> is_digit c | Lit l \<Rightarrow> c = l)
      then map_option ((#) c) (match_pat ps cs)
      else None)"

definition timestamp_pattern :: "pat list" where
  "timestamp_pattern =
     [Digit, Digit, Lit (CHR ''-''), Digit, Digit, Lit (CHR ''-''), Digit, Digit,
      Lit (CHR '' ''),
      Digit, Digit, Lit (CHR '':''), Digit, Digit, Lit (CHR '':''), Digit, Digit]"

definition timestamp_match :: "string \<Rightarrow> string option" where
  "timestamp_match line = match_pat timestamp_pattern line"

text \<open>\<^verbatim>\<open>re.match(keyword + r'\s+([\d.]+)\s+' + unit, line)\<close>. The three classes that meet
  (white space, digits and dot, the first letter of the unit) are disjoint, so the
  greedy runs are the only way to match and backtracking finds nothing else.\<close>

definition is_numeric :: "char \<Rightarrow> bool" where
  "is_numeric c = (is_digit c \<or> c = CHR ''.'')"

definition numeric_match :: "string \<Rightarrow> string \<Rightarrow> string \<Rightarrow> string option" where
  "numeric_match keyword unit line =
     (if take (length keyword) line \<noteq> keyword then None
      else
        (let r1 = drop (length keyword) line;
             r2 = dropWhile is_space r1;
             group1 = takeWhile is_numeric r2;
             r3 = dropWhile is_numeric r2;
             r4 = dropWhile is_space r3
         in if takeWhile is_space r1 = [] \<or> group1 = [] \<or> takeWhile is_space r3 = []
               \<or> take (length unit) r4 \<noteq> unit
            then None
            else Some group1))"

definition flow_match :: "string \<Rightarrow> string option" where
  "flow_match line = numeric_match ''Flow'' ''l/s'' line"

definition vel_match :: "string \<Rightarrow> string option" where
  "vel_match line = numeric_match ''Vel:'' ''m/s'' line"

subsection \<open>Numbers and dates\<close>

definition digits_value :: "string \<Rightarrow> nat" where
  "digits_value s = foldl (\<lambda>acc c. 10 * acc + (of_char c - 48)) 0 s"

text \<open>\<^verbatim>\<open>float(text)\<close> for a text of digits and dots, which is all that group 1 of the two
  numeric patterns can hold: it raises \<^verbatim>\<open>ValueError\<close> (here \<open>None\<close>) unless there is at
  least one digit and at most one dot. The result stands for the float nearest to the
  decimal value.\<close>

definition py_float :: "string \<Rightarrow> real option" where
  "py_float s =
     (let ip = takeWhile is_digit s; rest = dropWhile is_digit s
      in if rest = [] then (if ip = [] then None else Some (real (digits_value ip)))
         else
           (let fp = tl rest
            in if hd rest = CHR ''.'' \<and> list_all is_digit fp \<and> (ip \<noteq> [] \<or> fp \<noteq> [])
               then Some (real (digits_value (ip @ fp)) / 10 ^ length fp)
               else None))"

text \<open>Truth value of a float of decimal value \<open>v \<ge> 0\<close>: the nearest double is \<open>0.0\<close>
  exactly when \<open>v\<close> is at most half the least subnormal, \<open>2 ^ -1075\<close>.\<close>

definition float_truthy :: "real \<Rightarrow> bool" where
  "float_truthy v = (1 / 2 ^ 1075 < v)"

record datetime =
  year :: nat
  month :: nat
  day :: nat
  hour :: nat
  minute :: nat
  second :: nat

definition is_leap :: "nat \<Rightarrow> bool" where
  "is_leap y = (y mod 4 = 0 \<and> (y mod 100 \<noteq> 0 \<or> y mod 400 = 0))"

definition days_in_month :: "nat \<Rightarrow> nat \<Rightarrow> nat" where
  "days_in_month y m =
     (if m = 2 then (if is_leap y then 29 else 28)
      else if m = 4 \<or> m = 6 \<or> m = 9 \<or> m = 11 then 30 else 31)"

definition two_digits :: "string \<Rightarrow> nat \<Rightarrow> nat" where
  "two_digits s i = digits_value (take 2 (drop i s))"

text \<open>\<^verbatim>\<open>datetime.strptime(text, '%y-%m-%d %H:%M:%S')\<close> on the seventeen characters of group
  1 (two digits in every field): \<^verbatim>\<open>ValueError\<close> (here \<open>None\<close>) unless the fields name a
  date of the calendar and a time of day; \<^verbatim>\<open>%y\<close> maps 00 to 68 to 2000 to 2068 and 69 to 99
  to 1969 to 1999.\<close>

definition strptime :: "string \<Rightarrow> datetime option" where
  "strptime s =
     (let yy = two_digits s 0; mm = two_digits s 3; dd = two_digits s 6;
          HH = two_digits s 9; MM = two_digits s 12; SS = two_digits s 15;
          y = (if yy \<le> 68 then 2000 + yy else 1900 + yy)
      in if 1 \<le> mm \<and> mm \<le> 12 \<and> 1 \<le> dd \<and> dd \<le> days_in_month y mm
            \<and> HH \<le> 23 \<and> MM \<le> 59 \<and> SS \<le> 59
         then Some \<lparr>year = y, month = mm, day = dd, hour = HH, minute = MM, second = SS\<rparr>
         else None)"

definition digit_char :: "nat \<Rightarrow> char" where
  "digit_char n = ''0123456789'' ! (n mod 10)"

definition pad2 :: "nat \<Rightarrow> string" where
  "pad2 n = [digit_char (n div 10), digit_char n]"

definition pad4 :: "nat \<Rightarrow> string" where
  "pad4 n = pad2 (n div 100) @ pad2 (n mod 100)"

text \<open>\<^verbatim>\<open>self.bangkok_tz.localize(naive_dt).isoformat()\<close>: Asia/Bangkok is seven hours ahead
  of UTC for every year \<^verbatim>\<open>%y\<close> can give, and has no daylight saving time.\<close>

definition localize_isoformat :: "datetime \<Rightarrow> string" where
  "localize_isoformat d =
     pad4 (year d) @ ''-'' @ pad2 (month d) @ ''-'' @ pad2 (day d) @ ''T''
     @ pad2 (hour d) @ '':'' @ pad2 (minute d) @ '':'' @ pad2 (second d) @ ''+07:00''"

subsection \<open>The collector\<close>

record current_record =
  timestamp :: "string option"
  flow :: "real option"
  velocity :: "real option"

definition empty_record :: current_record where
  "empty_record = \<lparr>timestamp = None, flow = None, velocity = None\<rparr>"

text \<open>\<^verbatim>\<open>parse_data_line\<close>: the result is what the call returns or raises, paired with the
  accumulator as the call leaves it.\<close>

definition parse_data_line :: "current_record \<Rightarrow> string \<Rightarrow> (py_error + bool) \<times> current_record" where
  "parse_data_line cr line0 =
     (let line = strip line0 in
      case timestamp_match line of
        Some g \<Rightarrow>
          (case strptime g of
             None \<Rightarrow> (Inl ValueError, cr)
           | Some naive_dt \<Rightarrow> (Inr False, cr\<lparr>timestamp := Some (localize_isoformat naive_dt)\<rparr>))
      | None \<Rightarrow>
          (case flow_match line of
             Some g \<Rightarrow>
               (case py_float g of
                  None \<Rightarrow> (Inl ValueError, cr)
                | Some v \<Rightarrow> (Inr False, cr\<lparr>flow := Some v\<rparr>))
           | None \<Rightarrow>
               (case vel_match line of
                  Some g \<Rightarrow>
                    (case py_float g of
                       None \<Rightarrow> (Inl ValueError, cr)
                     | Some v \<Rightarrow> (Inr True, cr\<lparr>velocity := Some v\<rparr>))
                | None \<Rightarrow> (Inr False, cr))))"

text \<open>\<^verbatim>\<open>all(self.current_record.values())\<close>: \<^verbatim>\<open>None\<close>, the empty string and \<open>0.0\<close> are
  false.\<close>

definition all_values :: "current_record \<Rightarrow> bool" where
  "all_values cr =
     ((case timestamp cr of None \<Rightarrow> False | Some s \<Rightarrow> s \<noteq> [])
      \<and> (case flow cr of None \<Rightarrow> False | Some v \<Rightarrow> float_truthy v)
      \<and> (case velocity cr of None \<Rightarrow> False | Some v \<Rightarrow> float_truthy v))"

text \<open>The row handed to \<^verbatim>\<open>insert\<close> holds the accumulator's values as they are.\<close>

record flow_row =
  fr_timestamp :: "string option"
  fr_flow :: "real option"
  fr_velocity :: "real option"

datatype flow_event =
    FlowInsert flow_row
  | Stored string real real
  | StoreFailed
  | SupabaseErrorPrinted

text \<open>The environment of the collector: the wall clock read by the \<open>k\<close>-th call of
  \<^verbatim>\<open>store_record\<close> (\<^verbatim>\<open>datetime.now(timezone.utc).isoformat()\<close>) and what its insert
  does.\<close>

record env =
  utc_now :: "nat \<Rightarrow> string"
  execute :: "nat \<Rightarrow> sink_response"

record collector =
  buffer_size :: nat
  ring_buffer :: "string list"
  record_acc :: current_record
  store_calls :: nat
  flow_events :: "flow_event list"

definition collector_init :: "nat \<Rightarrow> collector" where
  "collector_init n =
     \<lparr>buffer_size = n, ring_buffer = [], record_acc = empty_record,
      store_calls = 0, flow_events = []\<rparr>"

text \<open>\<^verbatim>\<open>store_record\<close>: the whole body is inside \<^verbatim>\<open>try ... except Exception\<close>, so it always
  returns. With a non-empty response the message formats flow and velocity with
  \<^verbatim>\<open>:.3f\<close>, which raises on \<^verbatim>\<open>None\<close> and lands in the handler.\<close>

definition store_record :: "env \<Rightarrow> collector \<Rightarrow> collector" where
  "store_record e c =
     (let k = store_calls c;
          cr = (record_acc c)\<lparr>timestamp := Some (utc_now e k)\<rparr>;
          row = \<lparr>fr_timestamp = timestamp cr, fr_flow = flow cr, fr_velocity = velocity cr\<rparr>;
          printed =
            (case execute e k of
               ResponseData \<Rightarrow>
                 (case (flow cr, velocity cr) of
                    (Some f, Some v) \<Rightarrow> Stored (utc_now e k) f v
                  | _ \<Rightarrow> SupabaseErrorPrinted)
             | ResponseEmpty \<Rightarrow> StoreFailed
             | SinkRaises \<Rightarrow> SupabaseErrorPrinted)
      in c\<lparr>record_acc := cr, store_calls := k + 1,
           flow_events := flow_events c @ [FlowInsert row, printed]\<rparr>)"

text \<open>\<^verbatim>\<open>process_buffer\<close>: the \<^verbatim>\<open>while\<close> loop takes lines from the left of the ring buffer.
  An exception of \<^verbatim>\<open>parse_data_line\<close> is not handled here: the loop ends with it, the line
  already taken and the later lines still in the buffer.\<close>

fun process_loop :: "env \<Rightarrow> string list \<Rightarrow> collector \<Rightarrow> py_error option \<times> collector" where
  "process_loop e [] c = (None, c\<lparr>ring_buffer := []\<rparr>)"
| "process_loop e (line # rest) c =
     (case parse_data_line (record_acc c) line of
        (Inl err, cr) \<Rightarrow> (Some err, c\<lparr>ring_buffer := rest, record_acc := cr\<rparr>)
      | (Inr signalled, cr) \<Rightarrow>
          (let c1 = c\<lparr>ring_buffer := rest, record_acc := cr\<rparr> in
           if signalled \<and> all_values cr
           then process_loop e rest ((store_record e c1)\<lparr>record_acc := empty_record\<rparr>)
           else process_loop e rest c1))"

definition process_buffer :: "env \<Rightarrow> collector \<Rightarrow> py_error option \<times> collector" where
  "process_buffer e c = process_loop e (ring_buffer c) c"

text \<open>\<^verbatim>\<open>deque(maxlen=n).append(x)\<close> drops from the left what does not fit.\<close>

definition ring_append :: "nat \<Rightarrow> string list \<Rightarrow> string \<Rightarrow> string list" where
  "ring_append n xs x = drop (length xs + 1 - n) (xs @ [x])"

text \<open>\<^verbatim>\<open>run\<close>, after the port is open. Each element of the input is one pass of
  \<^verbatim>\<open>while True\<close>: \<open>Some line\<close> when a line was read and decoded, \<open>None\<close> when nothing was
  waiting or the read failed (that exception is caught and printed). The end of the
  input is the keyboard interrupt. Only \<^verbatim>\<open>KeyboardInterrupt\<close> is handled around the loop:
  any other exception of \<^verbatim>\<open>process_buffer\<close> runs the \<^verbatim>\<open>finally\<close> block, which calls
  \<^verbatim>\<open>process_buffer\<close> once more, and then leaves \<^verbatim>\<open>run\<close> and \<^verbatim>\<open>main\<close> uncaught.\<close>

fun run_loop :: "env \<Rightarrow> collector \<Rightarrow> string option list \<Rightarrow> py_error option \<times> collector" where
  "run_loop e c [] = process_buffer e c"
| "run_loop e c (inp # rest) =
     (let c1 = (case inp of
                  None \<Rightarrow> c
                | Some line \<Rightarrow>
                    if strip line \<noteq> []
                    then c\<lparr>ring_buffer := ring_append (buffer_size c) (ring_buffer c) line\<rparr>
                    else c)
      in case process_buffer e c1 of
           (Some err, c2) \<Rightarrow>
             (case process_buffer e c2 of
                (Some err', c3) \<Rightarrow> (Some err', c3)
              | (None, c3) \<Rightarrow> (Some err, c3))
         | (None, c2) \<Rightarrow> run_loop e c2 rest)"


section \<open>Notions of the specification\<close>

text \<open>The specification's valid frame: eight bytes, start marker \<open>0x02\<close> at byte 0
  and end marker \<open>0x03\<close> at byte 7. It is the test that \<^verbatim>\<open>find_frame\<close> applies
  before it prints \<^verbatim>\<open>Found valid frame\<close>.\<close>

definition spec_valid_frame :: "byte list \<Rightarrow> bool" where
  "spec_valid_frame w = (length w = 8 \<and> w ! 0 = 0x02 \<and> w ! 7 = 0x03)"

definition windows :: "byte list \<Rightarrow> byte list list" where
  "windows buf = map (\<lambda>i. take 8 (drop i buf)) [0..<length buf - 7]"

text \<open>The specification's selection: the values of the second valid frame of the
  buffer, scanning left to right; nothing when there are fewer than two.\<close>

definition spec_second_valid_frame :: "byte list \<Rightarrow> (real \<times> real) option" where
  "spec_second_valid_frame buf =
     (case filter spec_valid_frame (windows buf) of
        a # b # rest \<Rightarrow> Some (tenths (b ! 2) (b ! 3), tenths (b ! 4) (b ! 5))
      | _ \<Rightarrow> None)"

text \<open>How \<^verbatim>\<open>parse_data_line\<close> reads a line: the three branches in their order, and
  in each whether the conversion of the captured text succeeds. A well-formed
  timestamp, flow or velocity line is one of the first three classes.\<close>

datatype line_class =
    TimestampLine string
  | FlowLine real
  | VelocityLine real
  | Unparseable
  | OtherLine

definition classify :: "string \<Rightarrow> line_class" where
  "classify line0 =
     (let line = strip line0 in
      case timestamp_match line of
        Some g \<Rightarrow>
          (case strptime g of
             None \<Rightarrow> Unparseable
           | Some d \<Rightarrow> TimestampLine (localize_isoformat d))
      | None \<Rightarrow>
          (case flow_match line of
             Some g \<Rightarrow> (case py_float g of None \<Rightarrow> Unparseable | Some v \<Rightarrow> FlowLine v)
           | None \<Rightarrow>
               (case vel_match line of
                  Some g \<Rightarrow> (case py_float g of None \<Rightarrow> Unparseable | Some v \<Rightarrow> VelocityLine v)
                | None \<Rightarrow> OtherLine)))"

definition is_timestamp_line :: "string \<Rightarrow> bool" where
  "is_timestamp_line l = (case classify l of TimestampLine ts \<Rightarrow> True | _ \<Rightarrow> False)"

definition is_flow_line :: "string \<Rightarrow> bool" where
  "is_flow_line l = (case classify l of FlowLine v \<Rightarrow> True | _ \<Rightarrow> False)"

definition is_velocity_line :: "string \<Rightarrow> bool" where
  "is_velocity_line l = (case classify l of VelocityLine v \<Rightarrow> True | _ \<Rightarrow> False)"

text \<open>A line that is not a flow line with a float other than \<open>0.0\<close>; the same for
  velocity; an accumulator whose flow field is absent or \<open>0.0\<close>.\<close>

definition no_nonzero_flow :: "string \<Rightarrow> bool" where
  "no_nonzero_flow l = (case classify l of FlowLine f \<Rightarrow> \<not> float_truthy f | _ \<Rightarrow> True)"

definition no_nonzero_velocity :: "string \<Rightarrow> bool" where
  "no_nonzero_velocity l = (case classify l of VelocityLine v \<Rightarrow> \<not> float_truthy v | _ \<Rightarrow> True)"

definition flow_falsy :: "current_record \<Rightarrow> bool" where
  "flow_falsy cr = (case flow cr of None \<Rightarrow> True | Some f \<Rightarrow> \<not> float_truthy f)"

text \<open>The rows handed to the sink, in order.\<close>

fun inserted_rows :: "flow_event list \<Rightarrow> flow_row list" where
  "inserted_rows [] = []"
| "inserted_rows (FlowInsert row # evs) = row # inserted_rows evs"
| "inserted_rows (ev # evs) = inserted_rows evs"

text \<open>An environment for concrete runs: a fixed clock reading and a sink that
  accepts.\<close>

definition fixed_clock :: "nat \<Rightarrow> string" where
  "fixed_clock k = ''2024-01-15T03:30:05+00:00''"

definition accepting_sink :: "nat \<Rightarrow> sink_response" where
  "accepting_sink k = ResponseData"

definition test_env :: env where
  "test_env = \<lparr>utc_now = fixed_clock, execute = accepting_sink\<rparr>"


section \<open>Temperature probe: decoding and retention\<close>

lemma shift_or_eq: "shift_or hi lo = uint hi * 256 + uint lo"
proof -
  have "push_bit 8 (uint hi) AND uint lo = 0"
    by (rule bit_eqI) (auto simp: bit_simps dest: bit_imp_le_length)
  then have "push_bit 8 (uint hi) + uint lo = push_bit 8 (uint hi) OR uint lo"
    by (rule disjunctive_add_eq_or)
  then show ?thesis
    by (simp add: shift_or_def push_bit_eq_mult)
qed

lemma trim_le: "length (trim b) \<le> 32"
  by (simp add: trim_def)

lemma cycle_inv: "length (buffer st) \<le> 32 \<Longrightarrow> length (buffer (cycle st p)) \<le> 32"
  by (simp add: cycle_def Let_def trim_le)

lemma main_loop_inv:
  "length (buffer st) \<le> 32 \<Longrightarrow> length (buffer (main_loop st ps)) \<le> 32"
  by (induction ps arbitrary: st) (simp_all add: Let_def cycle_inv)

text \<open>
  Claim C8. Whatever the size of the chunk a read returns, the retained buffer holds at
  most 32 bytes when a cycle that received data ends; a cycle that received nothing
  leaves the buffer as it was, so the bound is kept by every cycle, and it holds after
  any number of cycles of the polling loop started on the empty buffer.
\<close>

theorem buffer_never_exceeds_cap:
  "(chunk p \<noteq> [] \<longrightarrow> length (buffer (cycle st p)) \<le> 32)
   \<and> (length (buffer st) \<le> 32 \<longrightarrow> length (buffer (cycle st p)) \<le> 32)
   \<and> (length (buffer st) \<le> 32 \<longrightarrow> length (buffer (main_loop st ps)) \<le> 32)
   \<and> length (buffer (main_loop temp_init ps)) \<le> 32"
proof -
  have "chunk p \<noteq> [] \<longrightarrow> length (buffer (cycle st p)) \<le> 32"
    by (simp add: cycle_def Let_def trim_le)
  moreover have "length (buffer (main_loop temp_init ps)) \<le> 32"
    by (rule main_loop_inv) (simp add: temp_init_def)
  ultimately show ?thesis
    by (simp add: cycle_inv main_loop_inv)
qed

theorem buffer_never_exceeds_cap_witness:
  "chunk \<lparr>chunk = replicate 40 0x02, now = ''t'', response = ResponseData\<rparr> \<noteq> []
   \<and> length (buffer temp_init) \<le> 32
   \<and> length (buffer (cycle temp_init
        \<lparr>chunk = replicate 40 0x02, now = ''t'', response = ResponseData\<rparr>)) \<le> 32
   \<and> length (buffer (main_loop temp_init
        [\<lparr>chunk = replicate 40 0x02, now = ''t'', response = ResponseData\<rparr>,
         \<lparr>chunk = replicate 40 0x03, now = ''u'', response = ResponseEmpty\<rparr>])) \<le> 32"
  using buffer_never_exceeds_cap
    [of "\<lparr>chunk = replicate 40 0x02, now = ''t'', response = ResponseData\<rparr>" temp_init
        "[\<lparr>chunk = replicate 40 0x02, now = ''t'', response = ResponseData\<rparr>,
          \<lparr>chunk = replicate 40 0x03, now = ''u'', response = ResponseEmpty\<rparr>]"]
  by (simp add: temp_init_def)

text \<open>
  Claim C2, as stated, at its example: the bytes \<open>0x01\<close>, \<open>0x64\<close> are the integer 356,
  so the decoded value is not 36.4.
\<close>

theorem tenths_0164_is_not_36_4: "tenths 0x01 0x64 \<noteq> 36.4"
  by (simp add: tenths_def shift_or_eq)

text \<open>
  Claim C2, amended. For an eight-byte frame that starts with \<open>0x02\<close>, both
  \<^verbatim>\<open>parse_frame\<close> and the body of the selection loop of \<^verbatim>\<open>main\<close> (here at index 0 with
  one window already counted) decode \<open>t1 = (frame[2] * 256 + frame[3]) / 10\<close> and
  \<open>t2 = (frame[4] * 256 + frame[5]) / 10\<close>; the bytes \<open>0x01\<close>, \<open>0x64\<close> decode to 35.6.
\<close>

theorem tenths_is_big_endian_over_ten:
  assumes "length frame = 8" and "frame ! 0 = 0x02"
  shows "parse_frame frame =
           FrameValues ((real_of_int (uint (frame ! 2)) * 256 + real_of_int (uint (frame ! 3))) / 10)
                       ((real_of_int (uint (frame ! 4)) * 256 + real_of_int (uint (frame ! 5))) / 10)
         \<and> upload_scan frame [0] 1 =
             Some ((real_of_int (uint (frame ! 2)) * 256 + real_of_int (uint (frame ! 3))) / 10,
                   (real_of_int (uint (frame ! 4)) * 256 + real_of_int (uint (frame ! 5))) / 10)
         \<and> tenths 0x01 0x64 = 35.6"
  using assms by (simp add: parse_frame_def tenths_def shift_or_eq Let_def)

theorem tenths_is_big_endian_over_ten_witness:
  "length [0x02, 0x00, 0x01, 0x64, 0x01, 0x64, 0x00, 0x03 :: byte] = 8
   \<and> [0x02, 0x00, 0x01, 0x64, 0x01, 0x64, 0x00, 0x03 :: byte] ! 0 = 0x02
   \<and> parse_frame [0x02, 0x00, 0x01, 0x64, 0x01, 0x64, 0x00, 0x03] = FrameValues 35.6 35.6"
  using tenths_is_big_endian_over_ten [of "[0x02, 0x00, 0x01, 0x64, 0x01, 0x64, 0x00, 0x03]"]
  by simp


section \<open>Temperature probe: range check and frame selection\<close>

text \<open>
  Claim C6. In a cycle that received data and selected a pair \<open>(t1, t2)\<close>, a row is
  handed to the sink exactly when both values lie in \<open>[10, 100]\<close>; the row then holds
  both values; otherwise the only event of the cycle is the report of the skipped pair
  with both values. The pair (105.3, 50.0) is skipped and the pair (50.0, 99.9) is
  inserted.
\<close>

theorem upload_iff_both_in_range:
  assumes "chunk p \<noteq> []" and "select_upload (buffer st @ chunk p) = Some (t1, t2)"
  shows "((\<exists>row. Insert row \<in> set (drop (length (events st)) (events (cycle st p))))
            = (10 \<le> t1 \<and> t1 \<le> 100 \<and> 10 \<le> t2 \<and> t2 \<le> 100))
         \<and> (\<forall>row. Insert row \<in> set (drop (length (events st)) (events (cycle st p)))
               \<longrightarrow> row = \<lparr>row_timestamp = now p, row_t1 = t1, row_t2 = t2\<rparr>)
         \<and> (\<not> (10 \<le> t1 \<and> t1 \<le> 100 \<and> 10 \<le> t2 \<and> t2 \<le> 100)
               \<longrightarrow> drop (length (events st)) (events (cycle st p)) = [SkippedUpload t1 t2])
         \<and> upload_selected n r (Some (105.3, 50.0)) = [SkippedUpload 105.3 50.0]
         \<and> Insert \<lparr>row_timestamp = n, row_t1 = 50.0, row_t2 = 99.9\<rparr>
               \<in> set (upload_selected n r (Some (50.0, 99.9)))"
proof -
  have ev: "drop (length (events st)) (events (cycle st p))
              = upload_selected (now p) (response p) (Some (t1, t2))"
    using assms by (simp add: cycle_def Let_def)
  show ?thesis
    unfolding ev
    by (cases r; cases "response p") (auto simp: upload_selected_def Let_def)
qed

theorem upload_iff_both_in_range_witness:
  "chunk \<lparr>chunk = [0x02, 0, 0, 0, 0, 0, 0, 0x03, 0x02, 0, 0x01, 0xF4, 0x03, 0xE7, 0, 0x03],
          now = ''t'', response = ResponseData\<rparr> \<noteq> []
   \<and> select_upload (buffer temp_init @
        [0x02, 0, 0, 0, 0, 0, 0, 0x03, 0x02, 0, 0x01, 0xF4, 0x03, 0xE7, 0, 0x03])
       = Some (50.0, 99.9)
   \<and> (\<exists>row. Insert row \<in> set (drop (length (events temp_init)) (events (cycle temp_init
        \<lparr>chunk = [0x02, 0, 0, 0, 0, 0, 0, 0x03, 0x02, 0, 0x01, 0xF4, 0x03, 0xE7, 0, 0x03],
          now = ''t'', response = ResponseData\<rparr>))))"
proof -
  have sel: "select_upload (buffer temp_init @
        [0x02, 0, 0, 0, 0, 0, 0, 0x03, 0x02, 0, 0x01, 0xF4, 0x03, 0xE7, 0, 0x03])
       = Some (50.0, 99.9)"
    by (simp add: select_upload_def temp_init_def upt_conv_Cons Let_def tenths_def shift_or_eq)
  show ?thesis
    using sel upload_iff_both_in_range
      [of "\<lparr>chunk = [0x02, 0, 0, 0, 0, 0, 0, 0x03, 0x02, 0, 0x01, 0xF4, 0x03, 0xE7, 0, 0x03],
          now = ''t'', response = ResponseData\<rparr>" temp_init "50.0" "99.9"]
    by simp
qed

lemma upload_scan_one:
  "upload_scan buf idx (Suc 0) =
     (case filter (\<lambda>w. w ! 0 = 0x02) (map (\<lambda>i. take 8 (drop i buf)) idx) of
        [] \<Rightarrow> None
      | b # rest \<Rightarrow> Some (tenths (b ! 2) (b ! 3), tenths (b ! 4) (b ! 5)))"
  by (induction idx) (simp_all add: Let_def)

lemma upload_scan_zero:
  "upload_scan buf idx 0 =
     (case filter (\<lambda>w. w ! 0 = 0x02) (map (\<lambda>i. take 8 (drop i buf)) idx) of
        a # b # rest \<Rightarrow> Some (tenths (b ! 2) (b ! 3), tenths (b ! 4) (b ! 5))
      | _ \<Rightarrow> None)"
  by (induction idx) (simp_all add: Let_def upload_scan_one split: list.splits)

lemma windows_length: "w \<in> set (windows buf) \<Longrightarrow> length w = 8"
  by (auto simp: windows_def)

text \<open>When no window that starts with the start marker lacks the end marker, the
  selection loop picks the second valid frame of the specification.\<close>

lemma select_upload_without_stray_start:
  assumes "list_all (\<lambda>w. w ! 0 = 0x02 \<longrightarrow> w ! 7 = 0x03) (windows buf)"
  shows "select_upload buf = spec_second_valid_frame buf"
proof -
  have "filter spec_valid_frame (windows buf) = filter (\<lambda>w. w ! 0 = 0x02) (windows buf)"
    using assms
    by (intro filter_cong refl) (auto simp: spec_valid_frame_def list_all_iff windows_length)
  then show ?thesis
    by (simp add: select_upload_def spec_second_valid_frame_def upload_scan_zero windows_def)
qed

text \<open>
  Claim C1, on two reads. The probe answers twice with the frame
  \<open>02 00 02 58 02 58 00 03\<close> (60.0 degrees on both channels, whose high byte is
  \<open>0x02\<close>): the buffer holds two valid frames and the second decodes to (60.0, 60.0),
  but the selection loop counts the window at offset 2, which starts with \<open>0x02\<close> and
  ends with \<open>0x00\<close>, as the second frame, decodes (60.0, 0.3) from it and skips the
  upload. With two windows that start with \<open>0x02\<close> and end with \<open>0x00\<close> the buffer
  holds no valid frame, and the loop uploads (50.0, 50.0) all the same. The loop
  differs from the selection of the specification only through such windows
  (\<open>select_upload_without_stray_start\<close>).
\<close>

theorem second_valid_frame_not_selected:
  "spec_second_valid_frame
     [0x02, 0, 0x02, 0x58, 0x02, 0x58, 0, 0x03, 0x02, 0, 0x02, 0x58, 0x02, 0x58, 0, 0x03]
     = Some (60, 60)
   \<and> select_upload
     [0x02, 0, 0x02, 0x58, 0x02, 0x58, 0, 0x03, 0x02, 0, 0x02, 0x58, 0x02, 0x58, 0, 0x03]
     = Some (60, 3 / 10)
   \<and> events (cycle temp_init
       \<lparr>chunk = [0x02, 0, 0x02, 0x58, 0x02, 0x58, 0, 0x03, 0x02, 0, 0x02, 0x58, 0x02, 0x58, 0, 0x03],
        now = ''t'', response = ResponseData\<rparr>)
     = [SkippedUpload 60 (3 / 10)]
   \<and> spec_second_valid_frame
     [0x02, 0, 0x01, 0xF4, 0x01, 0xF4, 0, 0, 0x02, 0, 0x01, 0xF4, 0x01, 0xF4, 0, 0]
     = None
   \<and> events (cycle temp_init
       \<lparr>chunk = [0x02, 0, 0x01, 0xF4, 0x01, 0xF4, 0, 0, 0x02, 0, 0x01, 0xF4, 0x01, 0xF4, 0, 0],
        now = ''t'', response = ResponseData\<rparr>)
     = [Insert \<lparr>row_timestamp = ''t'', row_t1 = 50, row_t2 = 50\<rparr>, Uploaded 50 50 ''t'']"
  by (simp add: spec_second_valid_frame_def windows_def spec_valid_frame_def
      select_upload_def cycle_def temp_init_def trim_def upload_selected_def
      upt_conv_Cons Let_def tenths_def shift_or_eq)

text \<open>
  Claim C3, on one window. The eight bytes \<open>02 00 01 64 01 64 00 FF\<close> start with the
  start marker and do not end with the end marker. \<^verbatim>\<open>find_frame\<close> finds no frame in a
  buffer made of two of them, yet \<^verbatim>\<open>parse_frame\<close> decodes (35.6, 35.6) from the window,
  the first loop of \<^verbatim>\<open>main\<close> prints both windows as decoded, and the cycle inserts the
  values of the second.
\<close>

theorem wrong_end_marker_is_decoded:
  "\<not> spec_valid_frame [0x02, 0, 0x01, 0x64, 0x01, 0x64, 0, 0xFF]
   \<and> parse_frame [0x02, 0, 0x01, 0x64, 0x01, 0x64, 0, 0xFF] = FrameValues 35.6 35.6
   \<and> find_frame [0x02, 0, 0x01, 0x64, 0x01, 0x64, 0, 0xFF,
                   0x02, 0, 0x01, 0x64, 0x01, 0x64, 0, 0xFF] = (None, 0)
   \<and> debug_scan [0x02, 0, 0x01, 0x64, 0x01, 0x64, 0, 0xFF,
                   0x02, 0, 0x01, 0x64, 0x01, 0x64, 0, 0xFF]
       = [FrameValues 35.6 35.6, FrameValues 35.6 35.6]
   \<and> events (cycle temp_init
       \<lparr>chunk = [0x02, 0, 0x01, 0x64, 0x01, 0x64, 0, 0xFF,
                 0x02, 0, 0x01, 0x64, 0x01, 0x64, 0, 0xFF],
        now = ''t'', response = ResponseData\<rparr>)
     = [Insert \<lparr>row_timestamp = ''t'', row_t1 = 35.6, row_t2 = 35.6\<rparr>, Uploaded 35.6 35.6 ''t'']"
  by (simp add: spec_valid_frame_def parse_frame_def find_frame_def debug_scan_def
      select_upload_def cycle_def temp_init_def trim_def upload_selected_def
      upt_conv_Cons Let_def tenths_def shift_or_eq)


section \<open>Flowmeter: one line at a time\<close>

lemma parse_data_line_classify:
  "parse_data_line cr l =
     (case classify l of
        TimestampLine ts \<Rightarrow> (Inr False, cr\<lparr>timestamp := Some ts\<rparr>)
      | FlowLine v \<Rightarrow> (Inr False, cr\<lparr>flow := Some v\<rparr>)
      | VelocityLine v \<Rightarrow> (Inr True, cr\<lparr>velocity := Some v\<rparr>)
      | Unparseable \<Rightarrow> (Inl ValueError, cr)
      | OtherLine \<Rightarrow> (Inr False, cr))"
  by (simp add: parse_data_line_def classify_def Let_def split: option.splits)

lemma timestamp_line_nonempty: "classify l = TimestampLine ts \<Longrightarrow> ts \<noteq> []"
  by (auto simp: classify_def Let_def localize_isoformat_def pad4_def pad2_def
      split: option.splits)

lemma step_timestamp:
  "classify l = TimestampLine ts \<Longrightarrow>
   process_loop e (l # rest) c =
     process_loop e rest (c\<lparr>ring_buffer := rest, record_acc := (record_acc c)\<lparr>timestamp := Some ts\<rparr>\<rparr>)"
  by (simp add: parse_data_line_classify)

lemma step_flow:
  "classify l = FlowLine v \<Longrightarrow>
   process_loop e (l # rest) c =
     process_loop e rest (c\<lparr>ring_buffer := rest, record_acc := (record_acc c)\<lparr>flow := Some v\<rparr>\<rparr>)"
  by (simp add: parse_data_line_classify)

lemma step_other:
  "classify l = OtherLine \<Longrightarrow>
   process_loop e (l # rest) c = process_loop e rest (c\<lparr>ring_buffer := rest\<rparr>)"
  by (simp add: parse_data_line_classify)

lemma step_unparseable:
  "classify l = Unparseable \<Longrightarrow>
   process_loop e (l # rest) c = (Some ValueError, c\<lparr>ring_buffer := rest\<rparr>)"
  by (simp add: parse_data_line_classify)

lemma step_velocity:
  "classify l = VelocityLine v \<Longrightarrow>
   process_loop e (l # rest) c =
     (let c1 = c\<lparr>ring_buffer := rest, record_acc := (record_acc c)\<lparr>velocity := Some v\<rparr>\<rparr>
      in if all_values (record_acc c1)
         then process_loop e rest ((store_record e c1)\<lparr>record_acc := empty_record\<rparr>)
         else process_loop e rest c1)"
  by (simp add: parse_data_line_classify Let_def)

lemmas line_defs =
  classify_def strip_def is_space_def is_digit_def is_numeric_def timestamp_match_def
  timestamp_pattern_def flow_match_def vel_match_def numeric_match_def py_float_def
  digits_value_def strptime_def two_digits_def days_in_month_def is_leap_def
  localize_isoformat_def pad4_def pad2_def digit_char_def Let_def

lemma classify_examples:
  "classify ''24-01-15 10:30:00'' = TimestampLine ''2024-01-15T10:30:00+07:00''"
  "classify ''Flow 2.50 l/s'' = FlowLine 2.5"
  "classify ''Flow 0.00 l/s'' = FlowLine 0"
  "classify ''Vel: 1.50 m/s'' = VelocityLine 1.5"
  "classify ''Flow . l/s'' = Unparseable"
  "classify ''Vel: 1.2.3 m/s'' = Unparseable"
  "classify ''99-13-45 25:61:61'' = Unparseable"
  "classify ''hello'' = OtherLine"
  by (simp_all add: line_defs)

text \<open>In the order timestamp, flow, velocity, with flow and velocity floats that are
  not zero, exactly one row is handed to the sink, with the three fields present, and
  the accumulator is empty afterwards, whatever the sink answers.\<close>

lemma ordered_triple_emits:
  assumes "classify a = TimestampLine ts" and "classify b = FlowLine f"
    and "classify d = VelocityLine v" and "float_truthy f" and "float_truthy v"
  shows "process_buffer e ((collector_init n)\<lparr>ring_buffer := [a, b, d]\<rparr>) =
           (None, (collector_init n)
              \<lparr>store_calls := 1,
               flow_events :=
                 [FlowInsert \<lparr>fr_timestamp = Some (utc_now e 0), fr_flow = Some f, fr_velocity = Some v\<rparr>,
                  (case execute e 0 of
                     ResponseData \<Rightarrow> Stored (utc_now e 0) f v
                   | ResponseEmpty \<Rightarrow> StoreFailed
                   | SinkRaises \<Rightarrow> SupabaseErrorPrinted)]\<rparr>)"
  using assms timestamp_line_nonempty [OF assms(1)]
  by (simp add: process_buffer_def step_timestamp step_flow step_velocity collector_init_def
      empty_record_def all_values_def store_record_def Let_def del: process_loop.simps(2)
      split: sink_response.splits)

lemma inserted_rows_append: "inserted_rows (xs @ ys) = inserted_rows xs @ inserted_rows ys"
  by (induction xs rule: inserted_rows.induct) simp_all

lemma no_velocity_no_emit:
  "list_all (\<lambda>l. \<not> is_velocity_line l) ls \<Longrightarrow>
   flow_events (snd (process_loop e ls c)) = flow_events c"
proof (induction ls arbitrary: c)
  case Nil
  then show ?case by simp
next
  case (Cons l ls)
  then show ?case
    by (cases "classify l")
       (simp_all add: step_timestamp step_flow step_other step_unparseable is_velocity_line_def
          del: process_loop.simps(2))
qed

lemma no_flow_no_emit:
  "list_all (\<lambda>l. \<not> is_flow_line l) ls \<Longrightarrow> flow (record_acc c) = None \<Longrightarrow>
   flow_events (snd (process_loop e ls c)) = flow_events c"
proof (induction ls arbitrary: c)
  case Nil
  then show ?case by simp
next
  case (Cons l ls)
  then show ?case
    by (cases "classify l")
       (simp_all add: step_timestamp step_velocity step_other step_unparseable is_flow_line_def
          all_values_def Let_def del: process_loop.simps(2))
qed

lemma no_timestamp_no_emit:
  "list_all (\<lambda>l. \<not> is_timestamp_line l) ls \<Longrightarrow> timestamp (record_acc c) = None \<Longrightarrow>
   flow_events (snd (process_loop e ls c)) = flow_events c"
proof (induction ls arbitrary: c)
  case Nil
  then show ?case by simp
next
  case (Cons l ls)
  then show ?case
    by (cases "classify l")
       (simp_all add: step_flow step_velocity step_other step_unparseable is_timestamp_line_def
          all_values_def Let_def del: process_loop.simps(2))
qed

lemma process_loop_step:
  "process_loop e (l # rest) c =
     (case classify l of
        TimestampLine ts \<Rightarrow>
          process_loop e rest
            (c\<lparr>ring_buffer := rest, record_acc := (record_acc c)\<lparr>timestamp := Some ts\<rparr>\<rparr>)
      | FlowLine v \<Rightarrow>
          process_loop e rest
            (c\<lparr>ring_buffer := rest, record_acc := (record_acc c)\<lparr>flow := Some v\<rparr>\<rparr>)
      | VelocityLine v \<Rightarrow>
          (let c1 = c\<lparr>ring_buffer := rest, record_acc := (record_acc c)\<lparr>velocity := Some v\<rparr>\<rparr>
           in if all_values (record_acc c1)
              then process_loop e rest ((store_record e c1)\<lparr>record_acc := empty_record\<rparr>)
              else process_loop e rest c1)
      | Unparseable \<Rightarrow> (Some ValueError, c\<lparr>ring_buffer := rest\<rparr>)
      | OtherLine \<Rightarrow> process_loop e rest (c\<lparr>ring_buffer := rest\<rparr>))"
  by (simp add: parse_data_line_classify Let_def split: line_class.splits)


section \<open>Flowmeter: assembling a record\<close>

text \<open>
  Claim C4, on three lines. The meter reports no flow: the lines
  \<^verbatim>\<open>24-01-15 10:30:00\<close>, \<^verbatim>\<open>Flow 0.00 l/s\<close>, \<^verbatim>\<open>Vel: 1.50 m/s\<close> are well formed and come in
  order, yet \<^verbatim>\<open>process_buffer\<close> hands nothing to the sink and leaves the three parsed
  values in the accumulator. With \<^verbatim>\<open>Flow 2.50 l/s\<close> in place of the flow line, one row
  with the three fields is handed over.
\<close>

theorem zero_flow_triple_not_emitted:
  "process_buffer e ((collector_init 1000)
      \<lparr>ring_buffer := [''24-01-15 10:30:00'', ''Flow 0.00 l/s'', ''Vel: 1.50 m/s'']\<rparr>)
   = (None, (collector_init 1000)
        \<lparr>record_acc := \<lparr>timestamp = Some ''2024-01-15T10:30:00+07:00'',
                         flow = Some 0, velocity = Some 1.5\<rparr>\<rparr>)
   \<and> flow_events (snd (process_buffer e ((collector_init 1000)
      \<lparr>ring_buffer := [''24-01-15 10:30:00'', ''Flow 0.00 l/s'', ''Vel: 1.50 m/s'']\<rparr>))) = []
   \<and> inserted_rows (flow_events (snd (process_buffer e ((collector_init 1000)
      \<lparr>ring_buffer := [''24-01-15 10:30:00'', ''Flow 2.50 l/s'', ''Vel: 1.50 m/s'']\<rparr>))))
     = [\<lparr>fr_timestamp = Some (utc_now e 0), fr_flow = Some 2.5, fr_velocity = Some 1.5\<rparr>]"
  by (simp add: process_buffer_def process_loop_step classify_examples
      collector_init_def empty_record_def all_values_def float_truthy_def store_record_def
      Let_def del: process_loop.simps(2) split: sink_response.splits)

text \<open>
  Claim C5, as stated, at the order flow, timestamp, velocity: a row is handed to the
  sink.
\<close>

theorem flow_timestamp_velocity_emits:
  "inserted_rows (flow_events (snd (process_buffer test_env ((collector_init 1000)
      \<lparr>ring_buffer := [''Flow 2.50 l/s'', ''24-01-15 10:30:00'', ''Vel: 1.50 m/s'']\<rparr>))))
   = [\<lparr>fr_timestamp = Some ''2024-01-15T03:30:05+00:00'', fr_flow = Some 2.5,
       fr_velocity = Some 1.5\<rparr>]"
  by (simp add: process_buffer_def process_loop_step classify_examples
      collector_init_def empty_record_def all_values_def float_truthy_def store_record_def
      test_env_def fixed_clock_def accepting_sink_def
      Let_def del: process_loop.simps(2))

text \<open>
  Claim C5, amended. For well-formed lines \<open>a\<close> (timestamp), \<open>b\<close> (flow), \<open>d\<close>
  (velocity) fed to the empty accumulator: the four orders in which the velocity line
  is not the last hand nothing to the sink; a sequence of lines of any length with no
  timestamp line, or with no flow line, or with no velocity line, hands nothing to the
  sink; the order flow, timestamp, velocity hands over one row when the flow and
  velocity floats are not zero.
\<close>

theorem only_velocity_last_emits:
  assumes "classify a = TimestampLine ts" and "classify b = FlowLine f"
    and "classify d = VelocityLine v"
  shows "flow_events (snd (process_buffer e ((collector_init n)\<lparr>ring_buffer := [a, d, b]\<rparr>))) = []
       \<and> flow_events (snd (process_buffer e ((collector_init n)\<lparr>ring_buffer := [b, d, a]\<rparr>))) = []
       \<and> flow_events (snd (process_buffer e ((collector_init n)\<lparr>ring_buffer := [d, a, b]\<rparr>))) = []
       \<and> flow_events (snd (process_buffer e ((collector_init n)\<lparr>ring_buffer := [d, b, a]\<rparr>))) = []
       \<and> (list_all (\<lambda>l. \<not> is_timestamp_line l) ls
            \<longrightarrow> flow_events (snd (process_buffer e ((collector_init n)\<lparr>ring_buffer := ls\<rparr>))) = [])
       \<and> (list_all (\<lambda>l. \<not> is_flow_line l) ls
            \<longrightarrow> flow_events (snd (process_buffer e ((collector_init n)\<lparr>ring_buffer := ls\<rparr>))) = [])
       \<and> (list_all (\<lambda>l. \<not> is_velocity_line l) ls
            \<longrightarrow> flow_events (snd (process_buffer e ((collector_init n)\<lparr>ring_buffer := ls\<rparr>))) = [])
       \<and> (float_truthy f \<and> float_truthy v
            \<longrightarrow> inserted_rows (flow_events (snd (process_buffer e
                   ((collector_init n)\<lparr>ring_buffer := [b, a, d]\<rparr>))))
                = [\<lparr>fr_timestamp = Some (utc_now e 0), fr_flow = Some f, fr_velocity = Some v\<rparr>])"
proof -
  have perms:
    "flow_events (snd (process_buffer e ((collector_init n)\<lparr>ring_buffer := [a, d, b]\<rparr>))) = []"
    "flow_events (snd (process_buffer e ((collector_init n)\<lparr>ring_buffer := [b, d, a]\<rparr>))) = []"
    "flow_events (snd (process_buffer e ((collector_init n)\<lparr>ring_buffer := [d, a, b]\<rparr>))) = []"
    "flow_events (snd (process_buffer e ((collector_init n)\<lparr>ring_buffer := [d, b, a]\<rparr>))) = []"
    using assms
    by (simp_all add: process_buffer_def step_timestamp step_flow step_velocity
        collector_init_def empty_record_def all_values_def Let_def del: process_loop.simps(2))
  have omit:
    "list_all (\<lambda>l. \<not> is_timestamp_line l) ls
       \<longrightarrow> flow_events (snd (process_buffer e ((collector_init n)\<lparr>ring_buffer := ls\<rparr>))) = []"
    "list_all (\<lambda>l. \<not> is_flow_line l) ls
       \<longrightarrow> flow_events (snd (process_buffer e ((collector_init n)\<lparr>ring_buffer := ls\<rparr>))) = []"
    "list_all (\<lambda>l. \<not> is_velocity_line l) ls
       \<longrightarrow> flow_events (snd (process_buffer e ((collector_init n)\<lparr>ring_buffer := ls\<rparr>))) = []"
    by (simp_all add: process_buffer_def no_timestamp_no_emit no_flow_no_emit no_velocity_no_emit
        collector_init_def empty_record_def)
  have ftv: "float_truthy f \<and> float_truthy v
            \<longrightarrow> inserted_rows (flow_events (snd (process_buffer e
                   ((collector_init n)\<lparr>ring_buffer := [b, a, d]\<rparr>))))
                = [\<lparr>fr_timestamp = Some (utc_now e 0), fr_flow = Some f, fr_velocity = Some v\<rparr>]"
    using assms timestamp_line_nonempty [OF assms(1)]
    by (simp add: process_buffer_def step_timestamp step_flow step_velocity collector_init_def
      empty_record_def all_values_def store_record_def Let_def del: process_loop.simps(2)
      split: sink_response.splits)
  from perms omit ftv show ?thesis by blast
qed

theorem only_velocity_last_emits_witness:
  "classify ''24-01-15 10:30:00'' = TimestampLine ''2024-01-15T10:30:00+07:00''
   \<and> classify ''Flow 2.50 l/s'' = FlowLine 2.5
   \<and> classify ''Vel: 1.50 m/s'' = VelocityLine 1.5
   \<and> list_all (\<lambda>l. \<not> is_velocity_line l) [''24-01-15 10:30:00'', ''Flow 2.50 l/s'']
   \<and> float_truthy 2.5 \<and> float_truthy 1.5
   \<and> flow_events (snd (process_buffer test_env ((collector_init 1000)
        \<lparr>ring_buffer := [''24-01-15 10:30:00'', ''Vel: 1.50 m/s'', ''Flow 2.50 l/s'']\<rparr>))) = []
   \<and> flow_events (snd (process_buffer test_env ((collector_init 1000)
        \<lparr>ring_buffer := [''24-01-15 10:30:00'', ''Flow 2.50 l/s'']\<rparr>))) = []
   \<and> inserted_rows (flow_events (snd (process_buffer test_env ((collector_init 1000)
        \<lparr>ring_buffer := [''Flow 2.50 l/s'', ''24-01-15 10:30:00'', ''Vel: 1.50 m/s'']\<rparr>))))
      = [\<lparr>fr_timestamp = Some (utc_now test_env 0), fr_flow = Some 2.5, fr_velocity = Some 1.5\<rparr>]"
  using only_velocity_last_emits
    [OF classify_examples(1) classify_examples(2) classify_examples(4),
     of test_env 1000 "[''24-01-15 10:30:00'', ''Flow 2.50 l/s'']"]
  by (simp add: classify_examples is_velocity_line_def float_truthy_def)

lemma zero_flow_never_emits:
  "list_all no_nonzero_flow ls \<Longrightarrow> flow_falsy (record_acc c) \<Longrightarrow>
   flow_events (snd (process_loop e ls c)) = flow_events c
   \<and> store_calls (snd (process_loop e ls c)) = store_calls c"
proof (induction ls arbitrary: c)
  case Nil
  then show ?case by simp
next
  case (Cons l ls)
  then show ?case
    by (cases "classify l")
       (simp_all add: step_timestamp step_flow step_velocity step_other step_unparseable
          no_nonzero_flow_def flow_falsy_def all_values_def Let_def
          del: process_loop.simps(2) split: option.splits)
qed

lemma zero_velocity_never_emits:
  "list_all no_nonzero_velocity ls \<Longrightarrow>
   flow_events (snd (process_loop e ls c)) = flow_events c
   \<and> store_calls (snd (process_loop e ls c)) = store_calls c"
proof (induction ls arbitrary: c)
  case Nil
  then show ?case by simp
next
  case (Cons l ls)
  then show ?case
    by (cases "classify l")
       (simp_all add: step_timestamp step_flow step_velocity step_other step_unparseable
          no_nonzero_velocity_def all_values_def Let_def
          del: process_loop.simps(2))
qed

text \<open>
  Claim C10, as stated, on five lines: a timestamp line, \<^verbatim>\<open>Flow 0.00 l/s\<close>, a velocity
  line, then \<^verbatim>\<open>Flow 2.50 l/s\<close> and a velocity line. A flow line of the sequence parses to
  \<open>0.0\<close>, and a row is handed to the sink all the same, at the second velocity line.
\<close>

theorem zero_then_nonzero_flow_emits:
  "inserted_rows (flow_events (snd (process_buffer test_env ((collector_init 1000)
      \<lparr>ring_buffer := [''24-01-15 10:30:00'', ''Flow 0.00 l/s'', ''Vel: 1.50 m/s'',
                       ''Flow 2.50 l/s'', ''Vel: 1.50 m/s'']\<rparr>))))
   = [\<lparr>fr_timestamp = Some ''2024-01-15T03:30:05+00:00'', fr_flow = Some 2.5,
       fr_velocity = Some 1.5\<rparr>]"
  by (simp add: process_buffer_def process_loop_step classify_examples
      collector_init_def empty_record_def all_values_def float_truthy_def store_record_def
      test_env_def fixed_clock_def accepting_sink_def
      Let_def del: process_loop.simps(2))

text \<open>
  Claim C10, amended. For every sequence of lines in which every flow line parses to
  \<open>0.0\<close>, fed to an accumulator whose flow field is absent or \<open>0.0\<close> (the empty one in
  particular), and for every sequence of lines in which every velocity line parses to
  \<open>0.0\<close>, fed to any accumulator, nothing is handed to the sink and \<^verbatim>\<open>store_record\<close> is
  never called. With well-formed timestamp, flow and velocity lines of which the flow
  or the velocity float is zero, in the order timestamp, flow, velocity or flow,
  timestamp, velocity from the empty accumulator, the accumulator keeps the three
  parsed values (it is not reset); in any state whose stored flow is that float, the
  velocity line is taken without a call of \<^verbatim>\<open>store_record\<close> and without a reset.
  \<^verbatim>\<open>Flow 0.00 l/s\<close> is such a flow line.
\<close>

theorem zero_reading_blocks_emission:
  assumes "classify a = TimestampLine ts" and "classify b = FlowLine f"
    and "classify d = VelocityLine v" and "\<not> float_truthy f \<or> \<not> float_truthy v"
  shows "process_buffer e ((collector_init n)\<lparr>ring_buffer := [a, b, d]\<rparr>)
           = (None, (collector_init n)
                \<lparr>record_acc := \<lparr>timestamp = Some ts, flow = Some f, velocity = Some v\<rparr>\<rparr>)
       \<and> process_buffer e ((collector_init n)\<lparr>ring_buffer := [b, a, d]\<rparr>)
           = (None, (collector_init n)
                \<lparr>record_acc := \<lparr>timestamp = Some ts, flow = Some f, velocity = Some v\<rparr>\<rparr>)
       \<and> (\<forall>c rest. flow (record_acc c) = Some f \<longrightarrow>
             process_loop e (d # rest) c =
               process_loop e rest
                 (c\<lparr>ring_buffer := rest, record_acc := (record_acc c)\<lparr>velocity := Some v\<rparr>\<rparr>))
       \<and> (list_all no_nonzero_flow ls \<and> flow_falsy (record_acc c0)
            \<longrightarrow> flow_events (snd (process_loop e ls c0)) = flow_events c0
                \<and> store_calls (snd (process_loop e ls c0)) = store_calls c0)
       \<and> (list_all no_nonzero_velocity ls
            \<longrightarrow> flow_events (snd (process_loop e ls c0)) = flow_events c0
                \<and> store_calls (snd (process_loop e ls c0)) = store_calls c0)
       \<and> (list_all no_nonzero_flow ls \<or> list_all no_nonzero_velocity ls
            \<longrightarrow> flow_events (snd (process_buffer e ((collector_init n)\<lparr>ring_buffer := ls\<rparr>))) = [])
       \<and> classify ''Flow 0.00 l/s'' = FlowLine 0 \<and> \<not> float_truthy 0"
proof -
  have three: "process_buffer e ((collector_init n)\<lparr>ring_buffer := [a, b, d]\<rparr>)
           = (None, (collector_init n)
                \<lparr>record_acc := \<lparr>timestamp = Some ts, flow = Some f, velocity = Some v\<rparr>\<rparr>)"
    using assms
    by (auto simp add: process_buffer_def step_timestamp step_flow step_velocity
        collector_init_def empty_record_def all_values_def Let_def
        simp del: process_loop.simps(2))
  have three': "process_buffer e ((collector_init n)\<lparr>ring_buffer := [b, a, d]\<rparr>)
           = (None, (collector_init n)
                \<lparr>record_acc := \<lparr>timestamp = Some ts, flow = Some f, velocity = Some v\<rparr>\<rparr>)"
    using assms
    by (auto simp add: process_buffer_def step_timestamp step_flow step_velocity
        collector_init_def empty_record_def all_values_def Let_def
        simp del: process_loop.simps(2))
  have step: "\<forall>c rest. flow (record_acc c) = Some f \<longrightarrow>
             process_loop e (d # rest) c =
               process_loop e rest
                 (c\<lparr>ring_buffer := rest, record_acc := (record_acc c)\<lparr>velocity := Some v\<rparr>\<rparr>)"
    using assms(3,4)
    by (auto simp add: step_velocity all_values_def Let_def simp del: process_loop.simps(2))
  have gf: "list_all no_nonzero_flow ls \<and> flow_falsy (record_acc c0)
            \<longrightarrow> flow_events (snd (process_loop e ls c0)) = flow_events c0
                \<and> store_calls (snd (process_loop e ls c0)) = store_calls c0"
    using zero_flow_never_emits [of ls c0 e] by blast
  have gv: "list_all no_nonzero_velocity ls
            \<longrightarrow> flow_events (snd (process_loop e ls c0)) = flow_events c0
                \<and> store_calls (snd (process_loop e ls c0)) = store_calls c0"
    using zero_velocity_never_emits [of ls e c0] by blast
  have fresh: "list_all no_nonzero_flow ls \<or> list_all no_nonzero_velocity ls
            \<longrightarrow> flow_events (snd (process_buffer e ((collector_init n)\<lparr>ring_buffer := ls\<rparr>))) = []"
    using zero_flow_never_emits [of ls "(collector_init n)\<lparr>ring_buffer := ls\<rparr>" e]
      zero_velocity_never_emits [of ls e "(collector_init n)\<lparr>ring_buffer := ls\<rparr>"]
    by (auto simp: process_buffer_def collector_init_def empty_record_def flow_falsy_def)
  have ex: "classify ''Flow 0.00 l/s'' = FlowLine 0 \<and> \<not> float_truthy 0"
    by (simp add: classify_examples float_truthy_def)
  from three three' step gf gv fresh ex show ?thesis by blast
qed

theorem zero_reading_blocks_emission_witness:
  "classify ''24-01-15 10:30:00'' = TimestampLine ''2024-01-15T10:30:00+07:00''
   \<and> classify ''Flow 0.00 l/s'' = FlowLine 0
   \<and> classify ''Vel: 1.50 m/s'' = VelocityLine 1.5
   \<and> \<not> float_truthy 0
   \<and> list_all no_nonzero_flow
        [''Flow 0.00 l/s'', ''24-01-15 10:30:00'', ''hello'', ''Vel: 1.50 m/s'', ''Vel: 1.50 m/s'']
   \<and> flow_falsy (record_acc (collector_init 1000))
   \<and> process_buffer test_env ((collector_init 1000)
        \<lparr>ring_buffer := [''24-01-15 10:30:00'', ''Flow 0.00 l/s'', ''Vel: 1.50 m/s'']\<rparr>)
      = (None, (collector_init 1000)
           \<lparr>record_acc := \<lparr>timestamp = Some ''2024-01-15T10:30:00+07:00'',
                            flow = Some 0, velocity = Some 1.5\<rparr>\<rparr>)
   \<and> flow_events (snd (process_buffer test_env ((collector_init 1000)
        \<lparr>ring_buffer := [''Flow 0.00 l/s'', ''24-01-15 10:30:00'', ''hello'', ''Vel: 1.50 m/s'',
                         ''Vel: 1.50 m/s'']\<rparr>))) = []"
proof -
  have z: "\<not> float_truthy 0 \<or> \<not> float_truthy 1.5"
    by (simp add: float_truthy_def)
  have l: "list_all no_nonzero_flow
        [''Flow 0.00 l/s'', ''24-01-15 10:30:00'', ''hello'', ''Vel: 1.50 m/s'', ''Vel: 1.50 m/s'']"
    by (simp add: no_nonzero_flow_def classify_examples float_truthy_def)
  have f: "flow_falsy (record_acc (collector_init 1000))"
    by (simp add: flow_falsy_def collector_init_def empty_record_def)
  show ?thesis
    using l f zero_reading_blocks_emission
      [OF classify_examples(1) classify_examples(3) classify_examples(4) z,
       where e = test_env and n = 1000
         and ls = "[''Flow 0.00 l/s'', ''24-01-15 10:30:00'', ''hello'', ''Vel: 1.50 m/s'',
                    ''Vel: 1.50 m/s'']"
         and ?c0.0 = "collector_init 1000"]
    by (simp add: classify_examples)
qed


section \<open>Flowmeter: errors and the stored timestamp\<close>

lemma blank_is_other: "strip l = [] \<Longrightarrow> classify l = OtherLine"
  by (simp add: classify_def timestamp_match_def timestamp_pattern_def flow_match_def
      vel_match_def numeric_match_def)

text \<open>What becomes of a parse error. A line whose flow or velocity pattern matches and
  whose captured text is not a float makes \<^verbatim>\<open>parse_data_line\<close> raise \<^verbatim>\<open>ValueError\<close>, with
  the accumulator as it was. Nothing handles the error: \<^verbatim>\<open>process_buffer\<close> ends with it
  at that line, with the later lines left in the ring buffer, and \<^verbatim>\<open>run\<close> ends with
  it.\<close>

lemma parse_error_is_not_caught:
  "(timestamp_match (strip l) = None \<and> flow_match (strip l) = Some g \<and> py_float g = None
      \<longrightarrow> parse_data_line cr l = (Inl ValueError, cr))
   \<and> (timestamp_match (strip l) = None \<and> flow_match (strip l) = None
        \<and> vel_match (strip l) = Some g \<and> py_float g = None
      \<longrightarrow> parse_data_line cr l = (Inl ValueError, cr))
   \<and> (\<forall>err. fst (parse_data_line cr l) = Inl err \<longrightarrow> snd (parse_data_line cr l) = cr)
   \<and> (fst (parse_data_line (record_acc c) l) = Inl ValueError
      \<longrightarrow> process_loop e (l # rest) c = (Some ValueError, c\<lparr>ring_buffer := rest\<rparr>))
   \<and> (fst (parse_data_line (record_acc c) l) = Inl ValueError
        \<and> ring_buffer c = [] \<and> 0 < buffer_size c
      \<longrightarrow> run_loop e c (Some l # later) = (Some ValueError, c))
   \<and> parse_data_line cr ''Flow . l/s'' = (Inl ValueError, cr)
   \<and> parse_data_line cr ''Vel: 1.2.3 m/s'' = (Inl ValueError, cr)"
proof -
  have a: "timestamp_match (strip l) = None \<and> flow_match (strip l) = Some g \<and> py_float g = None
      \<longrightarrow> parse_data_line cr l = (Inl ValueError, cr)"
    by (simp add: parse_data_line_def Let_def)
  have b: "timestamp_match (strip l) = None \<and> flow_match (strip l) = None
        \<and> vel_match (strip l) = Some g \<and> py_float g = None
      \<longrightarrow> parse_data_line cr l = (Inl ValueError, cr)"
    by (simp add: parse_data_line_def Let_def)
  have c: "\<forall>err. fst (parse_data_line cr l) = Inl err \<longrightarrow> snd (parse_data_line cr l) = cr"
    by (simp add: parse_data_line_classify split: line_class.splits)
  have unp: "classify l = Unparseable" if "fst (parse_data_line (record_acc c) l) = Inl ValueError"
    using that by (simp add: parse_data_line_classify split: line_class.splits)
  have d: "fst (parse_data_line (record_acc c) l) = Inl ValueError
      \<longrightarrow> process_loop e (l # rest) c = (Some ValueError, c\<lparr>ring_buffer := rest\<rparr>)"
    using unp by (simp add: step_unparseable del: process_loop.simps(2))
  have r: "fst (parse_data_line (record_acc c) l) = Inl ValueError
        \<and> ring_buffer c = [] \<and> 0 < buffer_size c
      \<longrightarrow> run_loop e c (Some l # later) = (Some ValueError, c)"
  proof (intro impI, elim conjE)
    assume h: "fst (parse_data_line (record_acc c) l) = Inl ValueError"
      and rb: "ring_buffer c = []" and bs: "0 < buffer_size c"
    have u: "classify l = Unparseable" using h by (rule unp)
    then have ne: "strip l \<noteq> []" using blank_is_other [of l] by auto
    show "run_loop e c (Some l # later) = (Some ValueError, c)"
      using u ne rb bs
      by (simp add: process_buffer_def ring_append_def step_unparseable
          del: process_loop.simps(2))
  qed
  have ex: "parse_data_line cr ''Flow . l/s'' = (Inl ValueError, cr)"
    "parse_data_line cr ''Vel: 1.2.3 m/s'' = (Inl ValueError, cr)"
    by (simp_all add: parse_data_line_classify classify_examples)
  from a b c d r ex show ?thesis by blast
qed

text \<open>
  Claim C7, on two runs of the collector. The first line read is \<^verbatim>\<open>Flow . l/s\<close> (or
  \<^verbatim>\<open>Vel: 1.2.3 m/s\<close>): the pattern accepts it, \<^verbatim>\<open>float\<close> raises, and \<^verbatim>\<open>run\<close> ends with the
  \<^verbatim>\<open>ValueError\<close> uncaught at that line instead of skipping it. The record of the three
  well-formed lines that follow, which is stored when they come alone, is never
  stored. In the same loop a failure of the serial read and a failure of the insert
  are caught, printed and passed over.
\<close>

theorem malformed_float_stops_collector:
  "run_loop test_env (collector_init 1000)
     [Some ''Flow . l/s\<newline>'', Some ''24-01-15 10:30:00\<newline>'', Some ''Flow 2.50 l/s\<newline>'',
      Some ''Vel: 1.50 m/s\<newline>'']
   = (Some ValueError, collector_init 1000)
   \<and> run_loop test_env (collector_init 1000)
     [Some ''Vel: 1.2.3 m/s\<newline>'', Some ''24-01-15 10:30:00\<newline>'', Some ''Flow 2.50 l/s\<newline>'',
      Some ''Vel: 1.50 m/s\<newline>'']
   = (Some ValueError, collector_init 1000)
   \<and> inserted_rows (flow_events (snd (run_loop test_env (collector_init 1000)
     [Some ''24-01-15 10:30:00\<newline>'', Some ''Flow 2.50 l/s\<newline>'', Some ''Vel: 1.50 m/s\<newline>''])))
     = [\<lparr>fr_timestamp = Some ''2024-01-15T03:30:05+00:00'', fr_flow = Some 2.5,
         fr_velocity = Some 1.5\<rparr>]"
  by (simp add: process_buffer_def process_loop_step line_defs ring_append_def
      collector_init_def empty_record_def all_values_def float_truthy_def store_record_def
      test_env_def fixed_clock_def accepting_sink_def
      del: process_loop.simps(2))

lemma store_calls_mono: "store_calls c \<le> store_calls (snd (process_loop e ls c))"
proof (induction ls arbitrary: c)
  case Nil
  then show ?case by simp
next
  case (Cons l ls)
  have "store_calls c \<le> store_calls (snd (process_loop e ls (c\<lparr>ring_buffer := ls, record_acc := r\<rparr>)))" for r
    using Cons [of "c\<lparr>ring_buffer := ls, record_acc := r\<rparr>"] by simp
  moreover have "store_calls c \<le> store_calls (snd (process_loop e ls (c\<lparr>ring_buffer := ls\<rparr>)))"
    using Cons [of "c\<lparr>ring_buffer := ls\<rparr>"] by simp
  moreover have "store_calls c \<le> store_calls (snd (process_loop e ls
        ((store_record e (c\<lparr>ring_buffer := ls, record_acc := r\<rparr>))\<lparr>record_acc := empty_record\<rparr>)))" for r
    using Cons [of "(store_record e (c\<lparr>ring_buffer := ls, record_acc := r\<rparr>))\<lparr>record_acc := empty_record\<rparr>"]
    by (simp add: store_record_def Let_def)
  ultimately show ?case
    by (simp add: process_loop_step Let_def del: process_loop.simps(2) split: line_class.splits)
qed

lemma stored_timestamps:
  "map fr_timestamp (inserted_rows (flow_events (snd (process_loop e ls c))))
     = map fr_timestamp (inserted_rows (flow_events c))
       @ map (\<lambda>k. Some (utc_now e k)) [store_calls c ..< store_calls (snd (process_loop e ls c))]"
proof (induction ls arbitrary: c)
  case Nil
  then show ?case by simp
next
  case (Cons l ls)
  show ?case
  proof (cases "classify l")
    case (TimestampLine ts)
    then show ?thesis
      using Cons [of "c\<lparr>ring_buffer := ls, record_acc := (record_acc c)\<lparr>timestamp := Some ts\<rparr>\<rparr>"]
      by (simp add: step_timestamp del: process_loop.simps(2))
  next
    case (FlowLine v)
    then show ?thesis
      using Cons [of "c\<lparr>ring_buffer := ls, record_acc := (record_acc c)\<lparr>flow := Some v\<rparr>\<rparr>"]
      by (simp add: step_flow del: process_loop.simps(2))
  next
    case (VelocityLine v)
    define c1 where "c1 = c\<lparr>ring_buffer := ls, record_acc := (record_acc c)\<lparr>velocity := Some v\<rparr>\<rparr>"
    define c2 where "c2 = (store_record e c1)\<lparr>record_acc := empty_record\<rparr>"
    show ?thesis
    proof (cases "all_values (record_acc c1)")
      case True
      have pl: "process_loop e (l # ls) c = process_loop e ls c2"
        using VelocityLine True by (simp add: step_velocity c1_def c2_def Let_def del: process_loop.simps(2))
      have sc: "store_calls c2 = Suc (store_calls c)"
        by (simp add: c2_def c1_def store_record_def Let_def)
      have ev: "map fr_timestamp (inserted_rows (flow_events c2))
                  = map fr_timestamp (inserted_rows (flow_events c)) @ [Some (utc_now e (store_calls c))]"
        by (simp add: c2_def c1_def store_record_def Let_def inserted_rows_append
            split: sink_response.splits option.splits)
      have le: "Suc (store_calls c) \<le> store_calls (snd (process_loop e ls c2))"
        using store_calls_mono [of c2 e ls] sc by simp
      then have upt: "[store_calls c ..< store_calls (snd (process_loop e ls c2))]
                   = store_calls c # [Suc (store_calls c) ..< store_calls (snd (process_loop e ls c2))]"
        by (simp add: upt_conv_Cons)
      show ?thesis
        using Cons [of c2] by (simp add: pl sc ev upt del: process_loop.simps(2))
    next
      case False
      have pl: "process_loop e (l # ls) c = process_loop e ls c1"
        using VelocityLine False by (simp add: step_velocity c1_def Let_def del: process_loop.simps(2))
      show ?thesis
        using Cons [of c1] by (simp add: pl del: process_loop.simps(2)) (simp add: c1_def)
    qed
  next
    case Unparseable
    then show ?thesis
      by (simp add: step_unparseable del: process_loop.simps(2))
  next
    case OtherLine
    then show ?thesis
      using Cons [of "c\<lparr>ring_buffer := ls\<rparr>"]
      by (simp add: step_other del: process_loop.simps(2))
  qed
qed

lemma acc_ring_commute:
  "c\<lparr>record_acc := A, ring_buffer := ls\<rparr> = c\<lparr>ring_buffer := ls, record_acc := A\<rparr>"
  by (cases c) simp

lemma device_timestamp_irrelevant:
  assumes "timestamp A = Some ts" and "timestamp A' = Some ts'" and "ts \<noteq> []" and "ts' \<noteq> []"
    and "flow A = flow A'" and "velocity A = velocity A'"
  shows "flow_events (snd (process_loop e ls (c\<lparr>record_acc := A\<rparr>)))
       = flow_events (snd (process_loop e ls (c\<lparr>record_acc := A'\<rparr>)))"
  using assms
proof (induction ls arbitrary: c A A' ts ts')
  case Nil
  then show ?case by simp
next
  case (Cons l ls)
  show ?case
  proof (cases "classify l")
    case (TimestampLine t)
    have "t \<noteq> []" using TimestampLine by (rule timestamp_line_nonempty)
    then show ?thesis
      using TimestampLine Cons.prems
        Cons.IH [of "A\<lparr>timestamp := Some t\<rparr>" t "A'\<lparr>timestamp := Some t\<rparr>" t "c\<lparr>ring_buffer := ls\<rparr>"]
      by (simp add: step_timestamp del: process_loop.simps(2))
  next
    case (FlowLine v)
    then show ?thesis
      using Cons.prems
        Cons.IH [of "A\<lparr>flow := Some v\<rparr>" ts "A'\<lparr>flow := Some v\<rparr>" ts' "c\<lparr>ring_buffer := ls\<rparr>"]
      by (simp add: step_flow del: process_loop.simps(2))
  next
    case (VelocityLine v)
    have av: "all_values (A\<lparr>velocity := Some v\<rparr>) = all_values (A'\<lparr>velocity := Some v\<rparr>)"
      using Cons.prems by (simp add: all_values_def)
    have st: "(store_record e (c\<lparr>ring_buffer := ls, record_acc := A\<lparr>velocity := Some v\<rparr>\<rparr>))
                \<lparr>record_acc := empty_record\<rparr>
            = (store_record e (c\<lparr>ring_buffer := ls, record_acc := A'\<lparr>velocity := Some v\<rparr>\<rparr>))
                \<lparr>record_acc := empty_record\<rparr>"
      using Cons.prems by (simp add: store_record_def Let_def split: sink_response.splits)
    show ?thesis
      using VelocityLine Cons.prems av st
        Cons.IH [of "A\<lparr>velocity := Some v\<rparr>" ts "A'\<lparr>velocity := Some v\<rparr>" ts' "c\<lparr>ring_buffer := ls\<rparr>"]
      by (simp add: step_velocity Let_def del: process_loop.simps(2))
  next
    case Unparseable
    then show ?thesis
      by (simp add: step_unparseable del: process_loop.simps(2))
  next
    case OtherLine
    then show ?thesis
      using Cons.prems Cons.IH [of A ts A' ts' "c\<lparr>ring_buffer := ls\<rparr>"]
      by (simp add: step_other acc_ring_commute del: process_loop.simps(2))
  qed
qed

text \<open>
  Claim C9. The \<open>k\<close>-th row handed to the sink carries the wall clock read by the
  \<open>k\<close>-th call of \<^verbatim>\<open>store_record\<close>, for every sequence of lines and every state the
  loop starts in. The device timestamp is parsed into the accumulator, and it does not
  reach the sink: replacing a well-formed timestamp line by another one leaves
  everything the collector emits unchanged, and the row that \<^verbatim>\<open>store_record\<close> inserts
  holds the clock reading and the accumulator's flow and velocity.
\<close>

theorem stored_timestamp_is_wall_clock:
  "map fr_timestamp (inserted_rows (flow_events (snd (process_loop e ls c))))
     = map fr_timestamp (inserted_rows (flow_events c))
       @ map (\<lambda>k. Some (utc_now e k)) [store_calls c ..< store_calls (snd (process_loop e ls c))]
   \<and> (classify a = TimestampLine ts \<and> classify a' = TimestampLine ts'
        \<longrightarrow> flow_events (snd (process_loop e (a # ls) c))
            = flow_events (snd (process_loop e (a' # ls) c)))
   \<and> (classify a = TimestampLine ts \<longrightarrow> timestamp (snd (parse_data_line cr a)) = Some ts)
   \<and> inserted_rows (flow_events (store_record e c))
       = inserted_rows (flow_events c)
         @ [\<lparr>fr_timestamp = Some (utc_now e (store_calls c)), fr_flow = flow (record_acc c),
             fr_velocity = velocity (record_acc c)\<rparr>]"
proof -
  have indep: "flow_events (snd (process_loop e (a # ls) c))
            = flow_events (snd (process_loop e (a' # ls) c))"
    if a: "classify a = TimestampLine ts" and a': "classify a' = TimestampLine ts'"
  proof -
    have "ts \<noteq> []" and "ts' \<noteq> []"
      using a a' by (auto dest: timestamp_line_nonempty)
    then show ?thesis
      using device_timestamp_irrelevant
        [of "(record_acc c)\<lparr>timestamp := Some ts\<rparr>" ts "(record_acc c)\<lparr>timestamp := Some ts'\<rparr>" ts'
            e ls "c\<lparr>ring_buffer := ls\<rparr>"]
      by (simp add: step_timestamp [OF a] step_timestamp [OF a'] del: process_loop.simps(2))
  qed
  have parsed: "classify a = TimestampLine ts \<longrightarrow> timestamp (snd (parse_data_line cr a)) = Some ts"
    by (simp add: parse_data_line_classify)
  have row: "inserted_rows (flow_events (store_record e c))
       = inserted_rows (flow_events c)
         @ [\<lparr>fr_timestamp = Some (utc_now e (store_calls c)), fr_flow = flow (record_acc c),
             fr_velocity = velocity (record_acc c)\<rparr>]"
    by (simp add: store_record_def Let_def inserted_rows_append
        split: sink_response.splits option.splits)
  show ?thesis
    using stored_timestamps [of e ls c] indep parsed row by blast
qed

theorem stored_timestamp_is_wall_clock_witness:
  "classify ''24-01-15 10:30:00'' = TimestampLine ''2024-01-15T10:30:00+07:00''
   \<and> classify ''99-12-31 23:59:59'' = TimestampLine ''1999-12-31T23:59:59+07:00''
   \<and> flow_events (snd (process_loop test_env
        [''24-01-15 10:30:00'', ''Flow 2.50 l/s'', ''Vel: 1.50 m/s''] (collector_init 1000)))
     = flow_events (snd (process_loop test_env
        [''99-12-31 23:59:59'', ''Flow 2.50 l/s'', ''Vel: 1.50 m/s''] (collector_init 1000)))
   \<and> map fr_timestamp (inserted_rows (flow_events (snd (process_loop test_env
        [''24-01-15 10:30:00'', ''Flow 2.50 l/s'', ''Vel: 1.50 m/s''] (collector_init 1000)))))
     = [Some ''2024-01-15T03:30:05+00:00'']"
proof -
  have a: "classify ''24-01-15 10:30:00'' = TimestampLine ''2024-01-15T10:30:00+07:00''"
    and a': "classify ''99-12-31 23:59:59'' = TimestampLine ''1999-12-31T23:59:59+07:00''"
    by (simp_all add: line_defs)
  have run: "map fr_timestamp (inserted_rows (flow_events (snd (process_loop test_env
        [''24-01-15 10:30:00'', ''Flow 2.50 l/s'', ''Vel: 1.50 m/s''] (collector_init 1000)))))
     = [Some ''2024-01-15T03:30:05+00:00'']"
    by (simp add: process_loop_step classify_examples collector_init_def empty_record_def
        all_values_def float_truthy_def store_record_def test_env_def fixed_clock_def
        accepting_sink_def Let_def del: process_loop.simps(2))
  show ?thesis
    using a a' run stored_timestamp_is_wall_clock
      [where a = "''24-01-15 10:30:00''" and a' = "''99-12-31 23:59:59''"
         and ts = "''2024-01-15T10:30:00+07:00''" and ts' = "''1999-12-31T23:59:59+07:00''"
         and e = test_env and ls = "[''Flow 2.50 l/s'', ''Vel: 1.50 m/s'']"
         and c = "collector_init 1000"]
    by simp
qed

end
